theory Spec2Isabelle
  imports Main "HOL-Library.Sublist" "HOL-Library.Word"
begin

section \<open>JavaScript values reaching the error handlers\<close>

text \<open>
  The handlers of \<^verbatim>\<open>db.ts\<close> receive caught values of type \<^verbatim>\<open>any\<close>.  Only two
  properties of a caught value are ever read: \<^verbatim>\<open>code\<close> and \<^verbatim>\<open>message\<close>.  A caught
  value is therefore either a value that has neither property (\<open>Prim\<close>), or an object
  carrying the two (\<open>Obj\<close>; \<open>JsUndefined\<close> stands for an absent property).

  The values without the two properties, which are also the values the two properties
  may hold: the primitives, the \<^verbatim>\<open>String\<close> objects (\<^verbatim>\<open>new String(s)\<close>) and the arrays
  of such values.  A number is a signed 32-bit integer, read with \<open>sint\<close>: fractions,
  \<^verbatim>\<open>NaN\<close>, the infinities and larger numbers are left out, and so are objects of
  other kinds as property values.
\<close>

datatype js_prim =
    JsUndefined
  | JsNull
  | JsBoolean bool
  | JsNumber "32 word"
  | JsString string
  | JsStringObject string
  | JsArray "js_prim list"

datatype js_any =
    Prim js_prim
  | Obj (obj_code: js_prim) (obj_message: js_prim)

text \<open>
  Truthiness, as \<^verbatim>\<open>if (x)\<close>, \<^verbatim>\<open>x && y\<close> and \<^verbatim>\<open>!!x\<close> decide it.  Every object is
  truthy, the empty array and \<^verbatim>\<open>new String('')\<close> too.
\<close>

fun truthy_prim :: "js_prim \<Rightarrow> bool" where
  "truthy_prim JsUndefined = False"
| "truthy_prim JsNull = False"
| "truthy_prim (JsBoolean b) = b"
| "truthy_prim (JsNumber n) = (n \<noteq> 0)"
| "truthy_prim (JsString s) = (s \<noteq> [])"
| "truthy_prim (JsStringObject s) = True"
| "truthy_prim (JsArray xs) = True"

fun truthy :: "js_any \<Rightarrow> bool" where
  "truthy (Prim p) = truthy_prim p"
| "truthy (Obj c m) = True"

text \<open>
  A \<^verbatim>\<open>TypeError\<close> raised by the runtime itself: an error object without a
  \<^verbatim>\<open>code\<close>, whose message is the text given.  The texts below are those of a current
  runtime, without the quotation marks it puts around a property's name.
\<close>

definition TypeError :: "string \<Rightarrow> js_any" where
  "TypeError what = Obj JsUndefined (JsString what)"

text \<open>
  Property reads \<^verbatim>\<open>x.code\<close> and \<^verbatim>\<open>x.message\<close>: they raise on \<^verbatim>\<open>null\<close> and
  \<^verbatim>\<open>undefined\<close>, give \<^verbatim>\<open>undefined\<close> on every other value that has not the property,
  and the stored property on an object that has.
\<close>

fun get_code :: "js_any \<Rightarrow> js_any + js_prim" where
  "get_code (Prim JsUndefined) =
     Inl (TypeError ''Cannot read properties of undefined (reading code)'')"
| "get_code (Prim JsNull) = Inl (TypeError ''Cannot read properties of null (reading code)'')"
| "get_code (Prim p) = Inr JsUndefined"
| "get_code (Obj c m) = Inr c"

fun get_message :: "js_any \<Rightarrow> js_any + js_prim" where
  "get_message (Prim JsUndefined) =
     Inl (TypeError ''Cannot read properties of undefined (reading message)'')"
| "get_message (Prim JsNull) =
     Inl (TypeError ''Cannot read properties of null (reading message)'')"
| "get_message (Prim p) = Inr JsUndefined"
| "get_message (Obj c m) = Inr m"

text \<open>\<^verbatim>\<open>String.prototype.includes\<close>: does \<open>sub\<close> occur in \<open>s\<close> as a contiguous run?\<close>

fun str_includes :: "string \<Rightarrow> string \<Rightarrow> bool" where
  "str_includes [] sub = (sub = [])"
| "str_includes (c # cs) sub = (prefix sub (c # cs) \<or> str_includes cs sub)"

text \<open>
  The method call \<^verbatim>\<open>m.includes(sub)\<close> with a string \<open>sub\<close>, on a property value that
  passed the truthiness test.  A string and a \<^verbatim>\<open>String\<close> object search their text.  An
  array has a method of that name as well, which looks for an element equal to the
  primitive string \<open>sub\<close>.  A boolean or a number has no such method, and calling what is
  not there raises.
\<close>

fun call_includes :: "js_prim \<Rightarrow> string \<Rightarrow> js_any + bool" where
  "call_includes (JsString s) sub = Inr (str_includes s sub)"
| "call_includes (JsStringObject s) sub = Inr (str_includes s sub)"
| "call_includes (JsArray xs) sub = Inr (JsString sub \<in> set xs)"
| "call_includes (JsBoolean b) sub = Inl (TypeError ''error.message.includes is not a function'')"
| "call_includes (JsNumber n) sub = Inl (TypeError ''error.message.includes is not a function'')"
| "call_includes JsUndefined sub =
     Inl (TypeError ''Cannot read properties of undefined (reading includes)'')"
| "call_includes JsNull sub =
     Inl (TypeError ''Cannot read properties of null (reading includes)'')"

text \<open>
  Template-literal conversion \<^verbatim>\<open>`${v}`\<close>.  An array is converted by joining the
  conversions of its elements with commas, \<^verbatim>\<open>null\<close> and \<^verbatim>\<open>undefined\<close> elements
  giving the empty string.
\<close>

definition digit_char :: "nat \<Rightarrow> char" where
  "digit_char d = char_of (48 + d)"

fun decimal :: "nat \<Rightarrow> string" where
  "decimal n = (if n < 10 then [digit_char n] else decimal (n div 10) @ [digit_char (n mod 10)])"

fun join_comma :: "string list \<Rightarrow> string" where
  "join_comma [] = []"
| "join_comma [s] = s"
| "join_comma (s # t # ss) = s @ '','' @ join_comma (t # ss)"

fun to_string :: "js_prim \<Rightarrow> string" where
  "to_string JsUndefined = ''undefined''"
| "to_string JsNull = ''null''"
| "to_string (JsBoolean b) = (if b then ''true'' else ''false'')"
| "to_string (JsNumber n) =
     (if sint n < 0 then ''-'' @ decimal (nat (- sint n)) else decimal (nat (sint n)))"
| "to_string (JsString s) = s"
| "to_string (JsStringObject s) = s"
| "to_string (JsArray xs) =
     join_comma (map (\<lambda>x. if x = JsUndefined \<or> x = JsNull then [] else to_string x) xs)"

section \<open>The error classifier\<close>

text \<open>
  \<^verbatim>\<open>
  function isNoSuchTableError(error: any): boolean {
      if (error) {
          if (error.code === '42P01') return true;
          if (error.message && error.message.includes('no such table: knex_migrations')) return true;
      }
      return false;
  }
  \<close>
  The result is \<open>Inr b\<close> when the function returns \<open>b\<close> and \<open>Inl e\<close> when it raises \<open>e\<close>.
\<close>

definition isNoSuchTableError :: "js_any \<Rightarrow> js_any + bool" where
  "isNoSuchTableError error =
     (if truthy error then
        (case get_code error of
           Inl e \<Rightarrow> Inl e
         | Inr c \<Rightarrow>
             if c = JsString ''42P01'' then Inr True
             else
               (case get_message error of
                  Inl e \<Rightarrow> Inl e
                | Inr m \<Rightarrow>
                    if truthy_prim m then
                      (case call_includes m ''no such table: knex_migrations'' of
                         Inl e \<Rightarrow> Inl e
                       | Inr b \<Rightarrow> if b then Inr True else Inr False)
                    else Inr False))
      else Inr False)"

section \<open>Resolving the connection descriptor\<close>

text \<open>
  Modelled from the spec: the declaration of \<^verbatim>\<open>DatabaseConfig\<close> lives in
  \<^verbatim>\<open>utils/types\<close>, which is not part of the sources at hand.  The fields are the
  ones \<^verbatim>\<open>makeKnexConfig\<close> reads; the backend kind is the client's name, optional
  fields are options.
\<close>

record DatabaseConfig =
  client :: string
  name :: string
  host :: "string option"
  port :: "int option"
  user :: "string option"
  password :: "string option"
  asyncStackTraces :: "bool option"

record DbConfigConnection =
  host :: "string option"
  port :: "int option"
  user :: "string option"
  database :: "string option"
  filename :: "string option"
  password :: "string option"

record KnexDatabaseConfig =
  client :: string
  connection :: DbConfigConnection
  useNullAsDefault :: "bool option"
  asyncStackTraces :: "bool option"

text \<open>
  \<^verbatim>\<open>sqliteDbDir\<close> is \<^verbatim>\<open>dirname(__dirname)\<close>, fixed when the module is loaded; it
  is a parameter here.
\<close>

definition sqliteFilePath :: "string \<Rightarrow> string \<Rightarrow> string" where
  "sqliteFilePath sqliteDbDir nm = sqliteDbDir @ ''/db-'' @ nm @ ''.sqlite''"

definition empty_connection :: DbConfigConnection where
  "empty_connection =
     \<lparr>host = None, port = None, user = None, database = None, filename = None,
      password = None\<rparr>"

definition makeKnexConfig :: "string \<Rightarrow> DatabaseConfig \<Rightarrow> KnexDatabaseConfig" where
  "makeKnexConfig sqliteDbDir dbConfig =
     (let connection =
            (if DatabaseConfig.client dbConfig = ''sqlite3'' then
               empty_connection
                 \<lparr>filename := Some (sqliteFilePath sqliteDbDir (DatabaseConfig.name dbConfig))\<rparr>
             else
               empty_connection
                 \<lparr>database := Some (DatabaseConfig.name dbConfig),
                  host := DatabaseConfig.host dbConfig,
                  port := DatabaseConfig.port dbConfig,
                  user := DatabaseConfig.user dbConfig,
                  password := DatabaseConfig.password dbConfig\<rparr>)
      in \<lparr>client = DatabaseConfig.client dbConfig,
          connection = connection,
          useNullAsDefault = Some (DatabaseConfig.client dbConfig = ''sqlite3''),
          asyncStackTraces = DatabaseConfig.asyncStackTraces dbConfig\<rparr>)"

section \<open>The query builder, as far as this module uses it\<close>

text \<open>
  A row of the bookkeeping table \<^verbatim>\<open>knex_migrations\<close>, reduced to the two columns the
  module's query names.
\<close>

record MigrationRecord =
  mig_id :: int
  mig_name :: string

text \<open>
  What \<^verbatim>\<open>.select('name')...first()\<close> resolves to: a row object \<^verbatim>\<open>{name: n}\<close>, or
  \<^verbatim>\<open>undefined\<close> when the table has no row.  \<open>RowNull\<close> is the \<^verbatim>\<open>null\<close> that
  \<^verbatim>\<open>latestMigration\<close> returns itself.
\<close>

datatype query_result = RowUndefined | RowNull | Row string

fun truthy_result :: "query_result \<Rightarrow> bool" where
  "truthy_result (Row n) = True"
| "truthy_result r = False"

text \<open>
  The three statements the module sends through a connection of type \<open>'db\<close>.  Each
  either raises a value or succeeds; dropping and truncating yield the database after
  the statement, reading yields the table's rows.  The engine behind is a parameter.
\<close>

record 'db Knex =
  schema_dropTable :: "'db \<Rightarrow> string \<Rightarrow> js_any + 'db"
  table_truncate :: "'db \<Rightarrow> string \<Rightarrow> js_any + 'db"
  table_rows :: "'db \<Rightarrow> string \<Rightarrow> js_any + MigrationRecord list"

text \<open>\<^verbatim>\<open>.select('name').orderBy('id', 'asc').first()\<close> on the rows read.\<close>

definition orderBy_id_asc :: "MigrationRecord list \<Rightarrow> MigrationRecord list" where
  "orderBy_id_asc rows = sort_key mig_id rows"

definition select_name_first :: "MigrationRecord list \<Rightarrow> query_result" where
  "select_name_first rows = (case rows of [] \<Rightarrow> RowUndefined | r # _ \<Rightarrow> Row (mig_name r))"

section \<open>The readiness probe\<close>

definition latestMigration :: "'db Knex \<Rightarrow> 'db \<Rightarrow> js_any + query_result" where
  "latestMigration K db =
     (case table_rows K db ''knex_migrations'' of
        Inr rows \<Rightarrow> Inr (select_name_first (orderBy_id_asc rows))
      | Inl error \<Rightarrow>
          (case isNoSuchTableError error of
             Inl e \<Rightarrow> Inl e
           | Inr b \<Rightarrow> if b then Inr RowNull else Inl error))"

record 'db ConnectionCheckResult =
  isCreated :: bool
  error :: js_any
  latestMigrationRow :: query_result
  connection :: "'db option"

definition connectionCheck :: "'db Knex \<Rightarrow> 'db \<Rightarrow> 'db ConnectionCheckResult" where
  "connectionCheck K db =
     (case latestMigration K db of
        Inr result \<Rightarrow>
          \<lparr>isCreated = truthy_result result, error = Prim JsNull,
           latestMigrationRow = result, connection = Some db\<rparr>
      | Inl err \<Rightarrow>
          \<lparr>isCreated = False, error = err,
           latestMigrationRow = RowNull, connection = None\<rparr>)"

section \<open>Resetting the schema\<close>

definition databaseSchema :: "(string \<times> (string \<times> string) list) list" where
  "databaseSchema =
   [
    (''users'',
       [(''id'', ''string''),
        (''email'', ''string''),
        (''password'', ''string''),
        (''full_name'', ''string''),
        (''is_admin'', ''number''),
        (''updated_time'', ''string''),
        (''created_time'', ''string'')]),
    (''sessions'',
       [(''id'', ''string''),
        (''user_id'', ''string''),
        (''auth_code'', ''string''),
        (''updated_time'', ''string''),
        (''created_time'', ''string'')]),
    (''permissions'',
       [(''id'', ''string''),
        (''user_id'', ''string''),
        (''item_type'', ''number''),
        (''item_id'', ''string''),
        (''can_read'', ''number''),
        (''can_write'', ''number''),
        (''updated_time'', ''string''),
        (''created_time'', ''string'')]),
    (''files'',
       [(''id'', ''string''),
        (''owner_id'', ''string''),
        (''name'', ''string''),
        (''content'', ''any''),
        (''mime_type'', ''string''),
        (''size'', ''number''),
        (''is_directory'', ''number''),
        (''is_root'', ''number''),
        (''parent_id'', ''string''),
        (''updated_time'', ''string''),
        (''created_time'', ''string''),
        (''source_file_id'', ''string''),
        (''content_type'', ''number''),
        (''content_id'', ''string'')]),
    (''changes'',
       [(''counter'', ''number''),
        (''id'', ''string''),
        (''owner_id'', ''string''),
        (''item_type'', ''number''),
        (''parent_id'', ''string''),
        (''item_id'', ''string''),
        (''item_name'', ''string''),
        (''type'', ''number''),
        (''updated_time'', ''string''),
        (''created_time'', ''string'')]),
    (''api_clients'',
       [(''id'', ''string''),
        (''name'', ''string''),
        (''secret'', ''string''),
        (''updated_time'', ''string''),
        (''created_time'', ''string'')]),
    (''notifications'',
       [(''id'', ''string''),
        (''owner_id'', ''string''),
        (''level'', ''number''),
        (''key'', ''string''),
        (''message'', ''string''),
        (''read'', ''number''),
        (''canBeDismissed'', ''number''),
        (''updated_time'', ''string''),
        (''created_time'', ''string'')]),
    (''shares'',
       [(''id'', ''string''),
        (''owner_id'', ''string''),
        (''file_id'', ''string''),
        (''type'', ''number''),
        (''updated_time'', ''string''),
        (''created_time'', ''string''),
        (''folder_id'', ''string'')]),
    (''share_users'',
       [(''id'', ''string''),
        (''share_id'', ''string''),
        (''user_id'', ''string''),
        (''is_accepted'', ''number''),
        (''updated_time'', ''string''),
        (''created_time'', ''string'')]),
    (''joplin_file_contents'',
       [(''id'', ''string''),
        (''owner_id'', ''string''),
        (''item_id'', ''string''),
        (''parent_id'', ''string''),
        (''type'', ''number''),
        (''updated_time'', ''string''),
        (''created_time'', ''string''),
        (''encryption_applied'', ''number''),
        (''content'', ''any'')])
   ]"

definition allTableNames :: "string list" where
  "allTableNames = map fst databaseSchema @ [''knex_migrations''] @ [''knex_migrations_lock'']"

text \<open>
  The \<^verbatim>\<open>for\<close> loops of \<^verbatim>\<open>dropTables\<close> and \<^verbatim>\<open>truncateTables\<close> over the table names
  still to visit.  The result is the database as the loop leaves it and the value the
  loop raised, if it raised.  A statement that fails leaves the database as it was.
\<close>

fun dropTables_loop :: "'db Knex \<Rightarrow> 'db \<Rightarrow> string list \<Rightarrow> 'db \<times> js_any option" where
  "dropTables_loop K db [] = (db, None)"
| "dropTables_loop K db (tableName # rest) =
     (case schema_dropTable K db tableName of
        Inr db' \<Rightarrow> dropTables_loop K db' rest
      | Inl err \<Rightarrow>
          (case isNoSuchTableError err of
             Inl e \<Rightarrow> (db, Some e)
           | Inr b \<Rightarrow> if b then dropTables_loop K db rest else (db, Some err)))"

definition dropTables :: "'db Knex \<Rightarrow> 'db \<Rightarrow> 'db \<times> js_any option" where
  "dropTables K db = dropTables_loop K db allTableNames"

fun truncateTables_loop :: "'db Knex \<Rightarrow> 'db \<Rightarrow> string list \<Rightarrow> 'db \<times> js_any option" where
  "truncateTables_loop K db [] = (db, None)"
| "truncateTables_loop K db (tableName # rest) =
     (case table_truncate K db tableName of
        Inr db' \<Rightarrow> truncateTables_loop K db' rest
      | Inl err \<Rightarrow>
          (case isNoSuchTableError err of
             Inl e \<Rightarrow> (db, Some e)
           | Inr b \<Rightarrow> if b then truncateTables_loop K db rest else (db, Some err)))"

definition truncateTables :: "'db Knex \<Rightarrow> 'db \<Rightarrow> 'db \<times> js_any option" where
  "truncateTables K db = truncateTables_loop K db allTableNames"

section \<open>Connecting with retry\<close>

text \<open>
  What the retry loop meets, attempt by attempt (counted from 0): whether opening the
  connection descriptor raises or yields a connection, how many milliseconds the attempt
  takes until the clock is read after it, and by how much the pause that follows
  oversleeps its 1000 milliseconds.  Every attempt takes finite time, and the clock
  (\<^verbatim>\<open>Date.now()\<close>) does not run backwards.

  Modelled from the spec: \<^verbatim>\<open>time.msleep\<close> belongs to \<^verbatim>\<open>@joplin/lib\<close>, which is not
  part of the sources at hand.  It suspends the caller for the milliseconds asked for, a
  flat pause of one second here; a timer may fire late, never early.  The calls of the
  logger change nothing that is looked at here; only the evaluation of their arguments
  is kept.
\<close>

record 'db world =
  knex_open :: "KnexDatabaseConfig \<Rightarrow> nat \<Rightarrow> js_any + 'db"
  attempt_ms :: "nat \<Rightarrow> nat"
  sleep_lag :: "nat \<Rightarrow> nat"

text \<open>
  The connections opened and not yet destroyed are kept in a list: \<^verbatim>\<open>connectDb\<close> adds
  the connection it creates, \<^verbatim>\<open>disconnectDb\<close> (\<^verbatim>\<open>db.destroy()\<close>) takes one away.
\<close>

definition connectDb ::
  "'db world \<Rightarrow> string \<Rightarrow> DatabaseConfig \<Rightarrow> nat \<Rightarrow> 'db list \<Rightarrow> (js_any + 'db) \<times> 'db list" where
  "connectDb W sqliteDbDir dbConfig i live =
     (case knex_open W (makeKnexConfig sqliteDbDir dbConfig) i of
        Inl e \<Rightarrow> (Inl e, live)
      | Inr db \<Rightarrow> (Inr db, db # live))"

definition disconnectDb :: "'db \<Rightarrow> 'db list \<Rightarrow> 'db list" where
  "disconnectDb db live = remove1 db live"

datatype 'db outcome = Returned "'db ConnectionCheckResult" | Thrown js_any

definition timeout :: int where
  "timeout = 30000"

definition new_Error :: "string \<Rightarrow> js_any" where
  "new_Error msg = Obj JsUndefined (JsString msg)"

text \<open>
  The \<^verbatim>\<open>try\<close> block of one iteration: \<open>Inr check\<close> when it returns \<open>check\<close>,
  \<open>Inl e\<close> when control passes to the \<^verbatim>\<open>catch\<close> clause with \<open>e\<close>.
\<close>

definition try_attempt ::
  "'db world \<Rightarrow> 'db Knex \<Rightarrow> string \<Rightarrow> DatabaseConfig \<Rightarrow> nat \<Rightarrow> 'db list
     \<Rightarrow> (js_any + 'db ConnectionCheckResult) \<times> 'db list" where
  "try_attempt W K sqliteDbDir dbConfig i live =
     (case connectDb W sqliteDbDir dbConfig i live of
        (Inl e, live') \<Rightarrow> (Inl e, live')
      | (Inr conn, live') \<Rightarrow>
          (let check = connectionCheck K conn
           in if truthy (error check) then (Inl (error check), live') else (Inr check, live')))"

text \<open>
  The \<^verbatim>\<open>while (true)\<close> loop.  \<open>now\<close> is the clock when the iteration starts, \<open>live\<close>
  the connections open at that moment.  The result is how the function ends, the clock
  at that moment and the connections still open then.  The \<^verbatim>\<open>catch\<close> clause reads
  \<^verbatim>\<open>error.message\<close> for the log line, which raises on \<^verbatim>\<open>null\<close> and \<^verbatim>\<open>undefined\<close>.
\<close>

function waitLoop ::
  "'db world \<Rightarrow> 'db Knex \<Rightarrow> string \<Rightarrow> DatabaseConfig \<Rightarrow> int \<Rightarrow> js_any \<Rightarrow> nat \<Rightarrow> int \<Rightarrow> 'db list
     \<Rightarrow> 'db outcome \<times> int \<times> 'db list" where
  "waitLoop W K sqliteDbDir dbConfig startTime lastError i now live =
     (let tried = try_attempt W K sqliteDbDir dbConfig i live;
          now1 = now + int (attempt_ms W i);
          live1 = snd tried
      in case fst tried of
           Inr check \<Rightarrow> (Returned check, now1, live1)
         | Inl err \<Rightarrow>
             (case get_message err of
                Inl e \<Rightarrow> (Thrown e, now1, live1)
              | Inr logged \<Rightarrow>
                  (let lastError' = err
                   in if now1 - startTime > timeout then
                        (case get_message lastError' of
                           Inl e \<Rightarrow> (Thrown e, now1, live1)
                         | Inr m \<Rightarrow>
                             (Thrown (new_Error
                                (''Timeout trying to connect to database. Last error was: ''
                                   @ to_string m)),
                              now1, live1))
                      else
                        waitLoop W K sqliteDbDir dbConfig startTime lastError' (Suc i)
                          (now1 + 1000 + int (sleep_lag W i)) live1)))"
  by pat_completeness auto
termination
  by (relation "measure (\<lambda>(W, K, sqliteDbDir, dbConfig, startTime, lastError, i, now, live).
                  nat (startTime + timeout + 1 - now))")
     (auto simp: timeout_def)

definition waitForConnection ::
  "'db world \<Rightarrow> 'db Knex \<Rightarrow> string \<Rightarrow> DatabaseConfig \<Rightarrow> int \<Rightarrow> 'db list
     \<Rightarrow> 'db outcome \<times> int \<times> 'db list" where
  "waitForConnection W K sqliteDbDir dbConfig now live =
     waitLoop W K sqliteDbDir dbConfig now (Obj JsUndefined (JsString [])) 0 now live"

text \<open>
  What the \<open>i\<close>-th attempt comes to and which connection it opens.  Neither depends on
  the connections already open.
\<close>

definition attempt_result ::
  "'db world \<Rightarrow> 'db Knex \<Rightarrow> string \<Rightarrow> DatabaseConfig \<Rightarrow> nat \<Rightarrow> js_any + 'db ConnectionCheckResult" where
  "attempt_result W K sqliteDbDir dbConfig i = fst (try_attempt W K sqliteDbDir dbConfig i [])"

definition opened_by :: "'db world \<Rightarrow> string \<Rightarrow> DatabaseConfig \<Rightarrow> nat \<Rightarrow> 'db list" where
  "opened_by W sqliteDbDir dbConfig i = snd (connectDb W sqliteDbDir dbConfig i [])"

text \<open>
  The milliseconds between the call and the reading of the clock after attempt \<open>k\<close>:
  the attempts up to \<open>k\<close> and the pauses before it.
\<close>

definition elapsed_after :: "'db world \<Rightarrow> nat \<Rightarrow> int" where
  "elapsed_after W k =
     (\<Sum>j = 0..k. int (attempt_ms W j)) + (\<Sum>j = 0..<k. 1000 + int (sleep_lag W j))"

section \<open>A reference engine for the two backends\<close>

text \<open>
  A database is its backend and its tables with their rows.  A statement on a table
  that does not exist fails the way the comments of \<^verbatim>\<open>isNoSuchTableError\<close> say each
  backend reports it: SQLite in the message, which names the missing table, PostgreSQL
  by the code \<^verbatim>\<open>42P01\<close>.  Every other statement succeeds.  The messages are the
  engines' own texts: the query builder puts the SQL statement and a dash before them,
  which is left out here; a statement of this module on a table of the catalogue does
  not contain the text the classifier looks for.
\<close>

datatype backend = Sqlite3 | Postgres

record database =
  backend_of :: backend
  tables :: "(string \<times> MigrationRecord list) list"

definition no_such_table :: "backend \<Rightarrow> string \<Rightarrow> js_any" where
  "no_such_table b t =
     (case b of
        Sqlite3 \<Rightarrow>
          Obj (JsString ''SQLITE_ERROR'') (JsString (''SQLITE_ERROR: no such table: '' @ t))
      | Postgres \<Rightarrow>
          Obj (JsString ''42P01'') (JsString (''relation '' @ t @ '' does not exist'')))"

definition engine :: "database Knex" where
  "engine =
     \<lparr>schema_dropTable = (\<lambda>db t.
        case map_of (tables db) t of
          None \<Rightarrow> Inl (no_such_table (backend_of db) t)
        | Some rows \<Rightarrow> Inr (db\<lparr>tables := filter (\<lambda>(n, rs). n \<noteq> t) (tables db)\<rparr>)),
      table_truncate = (\<lambda>db t.
        case map_of (tables db) t of
          None \<Rightarrow> Inl (no_such_table (backend_of db) t)
        | Some rows \<Rightarrow>
            Inr (db\<lparr>tables := map (\<lambda>(n, rs). if n = t then (n, []) else (n, rs)) (tables db)\<rparr>)),
      table_rows = (\<lambda>db t.
        case map_of (tables db) t of
          None \<Rightarrow> Inl (no_such_table (backend_of db) t)
        | Some rows \<Rightarrow> Inr rows)\<rparr>"

section \<open>Engines and worlds for the examples\<close>

text \<open>An engine on which every statement raises the same value.\<close>

definition rejecting :: "js_any \<Rightarrow> unit Knex" where
  "rejecting e =
     \<lparr>schema_dropTable = (\<lambda>db t. Inl e),
      table_truncate = (\<lambda>db t. Inl e),
      table_rows = (\<lambda>db t. Inl e)\<rparr>"

text \<open>
  Databases of the reference engine: one without any table, one with every table of the
  catalogue (all empty), one that only has the table \<^verbatim>\<open>users\<close>, and a migrated
  one whose bookkeeping table records three migrations.
\<close>

definition db_fresh :: "backend \<Rightarrow> database" where
  "db_fresh b = \<lparr>backend_of = b, tables = []\<rparr>"

definition db_full :: "backend \<Rightarrow> database" where
  "db_full b = \<lparr>backend_of = b, tables = map (\<lambda>n. (n, [])) allTableNames\<rparr>"

definition db_users_only :: "backend \<Rightarrow> database" where
  "db_users_only b =
     \<lparr>backend_of = b, tables = [(''users'', [\<lparr>mig_id = 1, mig_name = ''admin''\<rparr>])]\<rparr>"

definition db_migrated :: database where
  "db_migrated =
     \<lparr>backend_of = Postgres,
      tables = [(''knex_migrations'',
                 [\<lparr>mig_id = 2, mig_name = ''0002_items''\<rparr>,
                  \<lparr>mig_id = 1, mig_name = ''0001_init''\<rparr>,
                  \<lparr>mig_id = 3, mig_name = ''0003_shares''\<rparr>])]\<rparr>"

definition refused :: js_any where
  "refused = Obj (JsString ''ECONNREFUSED'') (JsString ''connect ECONNREFUSED 127.0.0.1:5432'')"

definition pg_config :: DatabaseConfig where
  "pg_config =
     \<lparr>DatabaseConfig.client = ''pg'', DatabaseConfig.name = ''joplin'',
      DatabaseConfig.host = Some ''db.local'', DatabaseConfig.port = Some 5432,
      DatabaseConfig.user = Some ''joplin'', DatabaseConfig.password = Some ''secret'',
      DatabaseConfig.asyncStackTraces = None\<rparr>"

definition sqlite_config :: DatabaseConfig where
  "sqlite_config =
     \<lparr>DatabaseConfig.client = ''sqlite3'', DatabaseConfig.name = ''dev'',
      DatabaseConfig.host = Some ''ignored'', DatabaseConfig.port = None,
      DatabaseConfig.user = None, DatabaseConfig.password = None,
      DatabaseConfig.asyncStackTraces = Some True\<rparr>"

text \<open>
  The query builder opens its connection lazily: creating the handle always succeeds,
  and the first statement meets the server.  A handle is its number and the database
  behind it, if the server is reachable; on an unreachable server every statement is
  refused.
\<close>

definition on_server ::
  "(database \<Rightarrow> string \<Rightarrow> js_any + 'a) \<Rightarrow> nat \<times> database option \<Rightarrow> string \<Rightarrow> js_any + 'a" where
  "on_server stmt h t = (case snd h of None \<Rightarrow> Inl refused | Some db \<Rightarrow> stmt db t)"

definition keep_handle :: "nat \<Rightarrow> js_any + database \<Rightarrow> js_any + nat \<times> database option" where
  "keep_handle n r = (case r of Inl e \<Rightarrow> Inl e | Inr db \<Rightarrow> Inr (n, Some db))"

definition lazy_engine :: "(nat \<times> database option) Knex" where
  "lazy_engine =
     \<lparr>schema_dropTable = (\<lambda>h t. keep_handle (fst h) (on_server (schema_dropTable engine) h t)),
      table_truncate = (\<lambda>h t. keep_handle (fst h) (on_server (table_truncate engine) h t)),
      table_rows = (\<lambda>h t. on_server (table_rows engine) h t)\<rparr>"

text \<open>
  Four worlds.  In the first the server is down during the first attempt, which takes
  50 milliseconds, and up from the second on.  In the second the first attempt takes
  29.5 seconds to be refused.  In the third the server never comes up and every attempt
  takes 10 seconds.  In the fourth, creating the handle raises the value \<^verbatim>\<open>null\<close>,
  after 5 milliseconds.
\<close>

definition world_up_at_second :: "(nat \<times> database option) world" where
  "world_up_at_second =
     \<lparr>knex_open = (\<lambda>cfg i. Inr (i, if i = 0 then None else Some db_migrated)),
      attempt_ms = (\<lambda>i. 50),
      sleep_lag = (\<lambda>i. 0)\<rparr>"

definition world_slow_refusal :: "(nat \<times> database option) world" where
  "world_slow_refusal =
     \<lparr>knex_open = (\<lambda>cfg i. Inr (i, if i = 0 then None else Some db_migrated)),
      attempt_ms = (\<lambda>i. if i = 0 then 29500 else 20),
      sleep_lag = (\<lambda>i. 0)\<rparr>"

definition world_never_up :: "(nat \<times> database option) world" where
  "world_never_up =
     \<lparr>knex_open = (\<lambda>cfg i. Inr (i, None)),
      attempt_ms = (\<lambda>i. 10000),
      sleep_lag = (\<lambda>i. 0)\<rparr>"

definition world_null_thrown :: "(nat \<times> database option) world" where
  "world_null_thrown =
     \<lparr>knex_open = (\<lambda>cfg i. Inl (Prim JsNull)),
      attempt_ms = (\<lambda>i. 5),
      sleep_lag = (\<lambda>i. 0)\<rparr>"

section \<open>Properties of the classifier\<close>

lemma includes_iff: "str_includes s sub \<longleftrightarrow> (\<exists>pre post. s = pre @ sub @ post)"
proof (induction s)
  case Nil
  then show ?case by auto
next
  case (Cons c cs)
  have "(\<exists>pre post. c # cs = pre @ sub @ post) \<longleftrightarrow>
        prefix sub (c # cs) \<or> (\<exists>pre post. cs = pre @ sub @ post)"
    using sublist_Cons_right [of sub c cs] by (simp add: sublist_def)
  with Cons show ?case by simp
qed

lemma isNoSuchTableError_Prim: "isNoSuchTableError (Prim p) = Inr False"
  by (cases p) (simp_all add: isNoSuchTableError_def)

lemma isNoSuchTableError_Obj:
  "isNoSuchTableError (Obj c m) =
     (if c = JsString ''42P01'' then Inr True
      else if \<not> truthy_prim m then Inr False
      else call_includes m ''no such table: knex_migrations'')"
  by (cases "call_includes m ''no such table: knex_migrations''")
     (simp_all add: isNoSuchTableError_def)

lemma rethrow_when_Other:
  assumes "isNoSuchTableError e = Inr False"
  shows "(schema_dropTable K db t = Inl e \<longrightarrow> dropTables_loop K db (t # rest) = (db, Some e))
       \<and> (table_truncate K db t = Inl e \<longrightarrow> truncateTables_loop K db (t # rest) = (db, Some e))
       \<and> (table_rows K db ''knex_migrations'' = Inl e \<longrightarrow> latestMigration K db = Inl e)"
  using assms by (simp add: latestMigration_def)




text \<open>
  C3, as the code has it.  On every error value except the objects whose message is
  truthy and not a string (and whose code is not \<^verbatim>\<open>42P01\<close>), the classifier returns
  \<open>True\<close> exactly when the value is an object with the code \<^verbatim>\<open>42P01\<close> or with a
  string message containing \<^verbatim>\<open>no such table: knex_migrations\<close>; when it returns
  \<open>False\<close>, each of its three callers raises the very value it caught.
\<close>

theorem isNoSuchTableError_classifies:
  assumes "\<forall>c m. e = Obj c m \<and> c \<noteq> JsString ''42P01'' \<and> truthy_prim m \<longrightarrow> (\<exists>s. m = JsString s)"
  shows "isNoSuchTableError e =
           Inr ((\<exists>m. e = Obj (JsString ''42P01'') m)
                \<or> (\<exists>c s. e = Obj c (JsString s) \<and> str_includes s ''no such table: knex_migrations''))
       \<and> (\<not> ((\<exists>m. e = Obj (JsString ''42P01'') m)
                \<or> (\<exists>c s. e = Obj c (JsString s) \<and> str_includes s ''no such table: knex_migrations''))
          \<longrightarrow> (schema_dropTable K db t = Inl e \<longrightarrow> dropTables_loop K db (t # rest) = (db, Some e))
             \<and> (table_truncate K db t = Inl e \<longrightarrow> truncateTables_loop K db (t # rest) = (db, Some e))
             \<and> (table_rows K db ''knex_migrations'' = Inl e \<longrightarrow> latestMigration K db = Inl e))"
proof -
  let ?P = "(\<exists>m. e = Obj (JsString ''42P01'') m)
            \<or> (\<exists>c s. e = Obj c (JsString s) \<and> str_includes s ''no such table: knex_migrations'')"
  have cls: "isNoSuchTableError e = Inr ?P"
  proof (cases e)
    case (Prim p)
    then show ?thesis by (simp add: isNoSuchTableError_Prim)
  next
    case (Obj c m)
    show ?thesis
    proof (cases "c = JsString ''42P01'' \<or> \<not> truthy_prim m")
      case True
      with Obj show ?thesis by (cases m) (auto simp: isNoSuchTableError_Obj)
    next
      case False
      with assms Obj obtain s where "m = JsString s" by blast
      with Obj False show ?thesis by (simp add: isNoSuchTableError_Obj)
    qed
  qed
  moreover have "\<not> ?P \<longrightarrow> isNoSuchTableError e = Inr False"
    using cls by simp
  ultimately show ?thesis
    using rethrow_when_Other [of e K db t rest] by blast
qed

text \<open>
  The theorem at the error SQLite raises for a missing table \<^verbatim>\<open>users\<close>, on an engine
  whose every statement raises it: it is not classified, and the three callers raise it
  as it is.
\<close>

theorem isNoSuchTableError_classifies_witness:
  "isNoSuchTableError (Obj (JsString ''SQLITE_ERROR'') (JsString ''SQLITE_ERROR: no such table: users''))
     = Inr False
   \<and> dropTables_loop
         (rejecting (Obj (JsString ''SQLITE_ERROR'') (JsString ''SQLITE_ERROR: no such table: users'')))
         () [''users'', ''sessions'']
       = ((), Some (Obj (JsString ''SQLITE_ERROR'') (JsString ''SQLITE_ERROR: no such table: users'')))
   \<and> truncateTables_loop
         (rejecting (Obj (JsString ''SQLITE_ERROR'') (JsString ''SQLITE_ERROR: no such table: users'')))
         () [''users'', ''sessions'']
       = ((), Some (Obj (JsString ''SQLITE_ERROR'') (JsString ''SQLITE_ERROR: no such table: users'')))
   \<and> latestMigration
         (rejecting (Obj (JsString ''SQLITE_ERROR'') (JsString ''SQLITE_ERROR: no such table: users'')))
         ()
       = Inl (Obj (JsString ''SQLITE_ERROR'') (JsString ''SQLITE_ERROR: no such table: users''))"
  using isNoSuchTableError_classifies
    [of "Obj (JsString ''SQLITE_ERROR'') (JsString ''SQLITE_ERROR: no such table: users'')"
        "rejecting (Obj (JsString ''SQLITE_ERROR'') (JsString ''SQLITE_ERROR: no such table: users''))"
        "()" "''users''" "[''sessions'']"]
  by (simp add: rejecting_def)

text \<open>
  C3 as stated fails: the error value \<^verbatim>\<open>{code: 'E_FAIL', message: true}\<close> matches
  neither pattern, yet it is not classified as Other, and \<^verbatim>\<open>dropTables\<close> raises a
  \<^verbatim>\<open>TypeError\<close> in its place.
\<close>

theorem isNoSuchTableError_replaces_ill_typed_error:
  "isNoSuchTableError (Obj (JsString ''E_FAIL'') (JsBoolean True))
     = Inl (TypeError ''error.message.includes is not a function'')
   \<and> dropTables_loop (rejecting (Obj (JsString ''E_FAIL'') (JsBoolean True))) () [''users'']
       = ((), Some (TypeError ''error.message.includes is not a function''))
   \<and> TypeError ''error.message.includes is not a function''
       \<noteq> Obj (JsString ''E_FAIL'') (JsBoolean True)"
  by (simp add: isNoSuchTableError_Obj rejecting_def TypeError_def)

section \<open>Properties of the readiness probe\<close>

lemma latestMigration_rows:
  "table_rows K db ''knex_migrations'' = Inr rows \<Longrightarrow>
   latestMigration K db = Inr (select_name_first (orderBy_id_asc rows))"
  by (simp add: latestMigration_def)

lemma latestMigration_fails:
  "table_rows K db ''knex_migrations'' = Inl e \<Longrightarrow>
   latestMigration K db =
     (case isNoSuchTableError e of Inl te \<Rightarrow> Inl te | Inr b \<Rightarrow> if b then Inr RowNull else Inl e)"
  by (simp add: latestMigration_def)

lemma first_by_id:
  assumes "rows \<noteq> []"
  shows "\<exists>r\<in>set rows. select_name_first (orderBy_id_asc rows) = Row (mig_name r)
           \<and> (\<forall>r'\<in>set rows. mig_id r \<le> mig_id r')"
proof -
  let ?ys = "sort_key mig_id rows"
  have "set ?ys = set rows" by simp
  with assms have "?ys \<noteq> []" by (metis set_empty)
  then obtain r rest where ys: "?ys = r # rest" by (cases ?ys) auto
  have "sorted (map mig_id ?ys)" by (rule sorted_sort_key)
  with ys have le: "\<forall>x\<in>set rest. mig_id r \<le> mig_id x" by simp
  have mem: "set rows = insert r (set rest)"
    using \<open>set ?ys = set rows\<close> ys by simp
  have "select_name_first (orderBy_id_asc rows) = Row (mig_name r)"
    using ys by (simp add: select_name_first_def orderBy_id_asc_def)
  moreover have "\<forall>r'\<in>set rows. mig_id r \<le> mig_id r'"
    using le mem by auto
  moreover have "r \<in> set rows" using mem by simp
  ultimately show ?thesis by blast
qed

lemma first_of_none: "select_name_first (orderBy_id_asc []) = RowUndefined"
  by (simp add: select_name_first_def orderBy_id_asc_def)

lemma connectionCheck_caught:
  "latestMigration K db = Inl e \<Longrightarrow>
   connectionCheck K db =
     \<lparr>isCreated = False, error = e, latestMigrationRow = RowNull, connection = None\<rparr>"
  by (simp add: connectionCheck_def)

lemma connectionCheck_returned:
  "latestMigration K db = Inr result \<Longrightarrow>
   connectionCheck K db =
     \<lparr>isCreated = truthy_result result, error = Prim JsNull,
      latestMigrationRow = result, connection = Some db\<rparr>"
  by (simp add: connectionCheck_def)

text \<open>
  When the classifier itself raises on the value the query raised, that second value is
  what the probe stores.
\<close>

lemma connectionCheck_classifier_raises:
  "table_rows K db ''knex_migrations'' = Inl e \<Longrightarrow> isNoSuchTableError e = Inl te \<Longrightarrow>
   connectionCheck K db =
     \<lparr>isCreated = False, error = te, latestMigrationRow = RowNull, connection = None\<rparr>"
  by (simp add: connectionCheck_def latestMigration_fails)

text \<open>
  C7.  When the bookkeeping table has rows, \<^verbatim>\<open>latestMigration\<close> returns the name
  of a row whose id is the smallest of the table: ascending order of id, first row.
\<close>

theorem latestMigration_smallest_id:
  assumes "table_rows K db ''knex_migrations'' = Inr rows" and "rows \<noteq> []"
  shows "\<exists>r\<in>set rows. latestMigration K db = Inr (Row (mig_name r))
           \<and> (\<forall>r'\<in>set rows. mig_id r \<le> mig_id r')"
  using first_by_id [OF assms(2)] latestMigration_rows [OF assms(1)] by simp

text \<open>
  The theorem on the migrated database: of the migrations recorded with the ids 2, 1
  and 3, the one with id 1 is returned.
\<close>

theorem latestMigration_smallest_id_witness:
  "latestMigration engine db_migrated = Inr (Row ''0001_init'')"
  using latestMigration_smallest_id [of engine db_migrated
      "[\<lparr>mig_id = 2, mig_name = ''0002_items''\<rparr>,
        \<lparr>mig_id = 1, mig_name = ''0001_init''\<rparr>,
        \<lparr>mig_id = 3, mig_name = ''0003_shares''\<rparr>]"]
  by (simp add: engine_def db_migrated_def)

text \<open>
  C2, as the code has it.  The probe \<^verbatim>\<open>connectionCheck\<close>, by what the query on the
  bookkeeping table does.  If it raises a value classified as a missing table, the
  result has \<open>isCreated = False\<close> and a \<^verbatim>\<open>null\<close> error, and keeps the connection.  If
  it succeeds, the error is \<^verbatim>\<open>null\<close>, \<open>isCreated\<close> holds exactly when the table has
  a row, and the name returned is the one of a row with the smallest id.  If it raises a
  value classified otherwise, that value is the result's error.  If it raises a value on
  which the classifier itself raises, the result's error is what the classifier raised,
  not the value the query raised.  In the last two cases the result has no connection.
\<close>

theorem connectionCheck_probe:
  "(table_rows K db ''knex_migrations'' = Inl e \<and> isNoSuchTableError e = Inr True \<longrightarrow>
      connectionCheck K db =
        \<lparr>isCreated = False, error = Prim JsNull, latestMigrationRow = RowNull,
         connection = Some db\<rparr>)
   \<and> (table_rows K db ''knex_migrations'' = Inr rows \<longrightarrow>
        isCreated (connectionCheck K db) = (rows \<noteq> [])
        \<and> error (connectionCheck K db) = Prim JsNull
        \<and> connection (connectionCheck K db) = Some db
        \<and> (rows = [] \<longrightarrow> latestMigrationRow (connectionCheck K db) = RowUndefined)
        \<and> (rows \<noteq> [] \<longrightarrow>
             (\<exists>r\<in>set rows. latestMigrationRow (connectionCheck K db) = Row (mig_name r)
                \<and> (\<forall>r'\<in>set rows. mig_id r \<le> mig_id r'))))
   \<and> (table_rows K db ''knex_migrations'' = Inl e \<and> isNoSuchTableError e = Inr False \<longrightarrow>
        connectionCheck K db =
          \<lparr>isCreated = False, error = e, latestMigrationRow = RowNull, connection = None\<rparr>)
   \<and> (table_rows K db ''knex_migrations'' = Inl e \<and> isNoSuchTableError e = Inl te \<longrightarrow>
        connectionCheck K db =
          \<lparr>isCreated = False, error = te, latestMigrationRow = RowNull, connection = None\<rparr>)"
proof (intro conjI impI)
  assume "table_rows K db ''knex_migrations'' = Inl e \<and> isNoSuchTableError e = Inl te"
  then show "connectionCheck K db =
      \<lparr>isCreated = False, error = te, latestMigrationRow = RowNull, connection = None\<rparr>"
    by (simp add: connectionCheck_def latestMigration_fails)
next
  assume "table_rows K db ''knex_migrations'' = Inl e \<and> isNoSuchTableError e = Inr True"
  then show "connectionCheck K db =
      \<lparr>isCreated = False, error = Prim JsNull, latestMigrationRow = RowNull, connection = Some db\<rparr>"
    by (simp add: connectionCheck_def latestMigration_fails)
next
  assume "table_rows K db ''knex_migrations'' = Inl e \<and> isNoSuchTableError e = Inr False"
  then show "connectionCheck K db =
      \<lparr>isCreated = False, error = e, latestMigrationRow = RowNull, connection = None\<rparr>"
    by (simp add: connectionCheck_def latestMigration_fails)
next
  assume r: "table_rows K db ''knex_migrations'' = Inr rows"
  have cc: "connectionCheck K db =
      \<lparr>isCreated = truthy_result (select_name_first (orderBy_id_asc rows)), error = Prim JsNull,
       latestMigrationRow = select_name_first (orderBy_id_asc rows), connection = Some db\<rparr>"
    by (simp add: connectionCheck_def latestMigration_rows [OF r])
  show "error (connectionCheck K db) = Prim JsNull" by (simp add: cc)
  show "connection (connectionCheck K db) = Some db" by (simp add: cc)
  show "isCreated (connectionCheck K db) = (rows \<noteq> [])"
  proof (cases "rows = []")
    case True
    then show ?thesis by (simp add: cc first_of_none)
  next
    case False
    then show ?thesis using first_by_id [OF False] by (auto simp: cc)
  qed
  {
    assume "rows = []"
    then show "latestMigrationRow (connectionCheck K db) = RowUndefined"
      by (simp add: cc first_of_none)
  }
  {
    assume "rows \<noteq> []"
    then show "\<exists>r\<in>set rows. latestMigrationRow (connectionCheck K db) = Row (mig_name r)
                \<and> (\<forall>r'\<in>set rows. mig_id r \<le> mig_id r')"
      using first_by_id [of rows] by (simp add: cc)
  }
qed

text \<open>
  The theorem on a fresh SQLite database (no bookkeeping table yet), on the migrated
  database, on a connection whose every statement is refused, and on one whose every
  statement raises an object with the number 110 as its message.
\<close>

theorem connectionCheck_probe_witness:
  "connectionCheck engine (db_fresh Sqlite3) =
     \<lparr>isCreated = False, error = Prim JsNull, latestMigrationRow = RowNull,
      connection = Some (db_fresh Sqlite3)\<rparr>
   \<and> connectionCheck engine db_migrated =
       \<lparr>isCreated = True, error = Prim JsNull, latestMigrationRow = Row ''0001_init'',
        connection = Some db_migrated\<rparr>
   \<and> connectionCheck (rejecting refused) () =
       \<lparr>isCreated = False, error = refused, latestMigrationRow = RowNull, connection = None\<rparr>
   \<and> connectionCheck (rejecting (Obj (JsString ''ETIMEDOUT'') (JsNumber 110))) () =
       \<lparr>isCreated = False,
        error = TypeError ''error.message.includes is not a function'',
        latestMigrationRow = RowNull, connection = None\<rparr>"
  using connectionCheck_probe
          [of engine "db_fresh Sqlite3" "no_such_table Sqlite3 ''knex_migrations''" "[]"]
        connectionCheck_probe
          [of engine db_migrated refused
              "[\<lparr>mig_id = 2, mig_name = ''0002_items''\<rparr>,
                \<lparr>mig_id = 1, mig_name = ''0001_init''\<rparr>,
                \<lparr>mig_id = 3, mig_name = ''0003_shares''\<rparr>]"]
        connectionCheck_probe [of "rejecting refused" "()" refused "[]"]
        connectionCheck_probe
          [of "rejecting (Obj (JsString ''ETIMEDOUT'') (JsNumber 110))" "()"
              "Obj (JsString ''ETIMEDOUT'') (JsNumber 110)" "[]"
              "TypeError ''error.message.includes is not a function''"]
  by (simp add: engine_def db_fresh_def db_migrated_def rejecting_def refused_def
      no_such_table_def isNoSuchTableError_Obj connectionCheck_def latestMigration_def
      select_name_first_def orderBy_id_asc_def)

text \<open>
  C2 as stated fails: not every other query failure is reported as the probe's error.
  When the query raises \<^verbatim>\<open>{code: 'ETIMEDOUT', message: true}\<close>, the classifier raises
  on it (\<^verbatim>\<open>true\<close> has no \<^verbatim>\<open>includes\<close> method) and the probe's error is that
  \<^verbatim>\<open>TypeError\<close>, not the failure of the query.
\<close>

theorem connectionCheck_reports_classifier_error:
  "connectionCheck (rejecting (Obj (JsString ''ETIMEDOUT'') (JsBoolean True))) () =
     \<lparr>isCreated = False,
      error = TypeError ''error.message.includes is not a function'',
      latestMigrationRow = RowNull, connection = None\<rparr>
   \<and> TypeError ''error.message.includes is not a function''
       \<noteq> Obj (JsString ''ETIMEDOUT'') (JsBoolean True)"
  by (simp add: connectionCheck_def latestMigration_def rejecting_def isNoSuchTableError_Obj
      TypeError_def)

text \<open>
  C8, as the code has it.  A result with a connection has a \<^verbatim>\<open>null\<close> error; a result
  without a connection has as its error the value the probe caught.  So the connection
  is there exactly when the error is \<^verbatim>\<open>null\<close>, unless the value caught is
  \<^verbatim>\<open>null\<close> itself.
\<close>

theorem connectionCheck_connection_iff_no_error:
  "(connection (connectionCheck K db) \<noteq> None \<longrightarrow> error (connectionCheck K db) = Prim JsNull)
   \<and> (connection (connectionCheck K db) = None \<longrightarrow>
        latestMigration K db = Inl (error (connectionCheck K db)))
   \<and> (latestMigration K db \<noteq> Inl (Prim JsNull) \<longrightarrow>
        (connection (connectionCheck K db) \<noteq> None
           \<longleftrightarrow> error (connectionCheck K db) = Prim JsNull))"
proof (cases "latestMigration K db")
  case (Inl e)
  then show ?thesis by (simp add: connectionCheck_caught)
next
  case (Inr result)
  then show ?thesis by (simp add: connectionCheck_returned)
qed

text \<open>
  The theorem on the migrated database, where the probe keeps the connection, and on a
  refused connection, where it reports the refusal.
\<close>

theorem connectionCheck_connection_iff_no_error_witness:
  "connection (connectionCheck engine db_migrated) = Some db_migrated
   \<and> error (connectionCheck engine db_migrated) = Prim JsNull
   \<and> connection (connectionCheck (rejecting refused) ()) = None
   \<and> error (connectionCheck (rejecting refused) ()) = refused
   \<and> refused \<noteq> Prim JsNull"
  using connectionCheck_connection_iff_no_error [of engine db_migrated]
        connectionCheck_connection_iff_no_error [of "rejecting refused" "()"]
  by (simp add: engine_def db_migrated_def rejecting_def refused_def
      isNoSuchTableError_Obj connectionCheck_def latestMigration_def
      select_name_first_def orderBy_id_asc_def)

text \<open>
  C8 as stated fails: when the query is rejected with the value \<^verbatim>\<open>null\<close>, the
  classifier returns \<open>False\<close>, \<^verbatim>\<open>latestMigration\<close> raises \<^verbatim>\<open>null\<close> again, and
  the probe's result has neither a connection nor an error.
\<close>

theorem connectionCheck_null_rejection:
  "connectionCheck (rejecting (Prim JsNull)) () =
     \<lparr>isCreated = False, error = Prim JsNull, latestMigrationRow = RowNull, connection = None\<rparr>"
  by (simp add: connectionCheck_def latestMigration_def rejecting_def isNoSuchTableError_Prim)

section \<open>Properties of the connection descriptor\<close>

text \<open>
  C9.  \<^verbatim>\<open>makeKnexConfig\<close> is a function of the configuration and the storage
  directory alone.  For the client \<^verbatim>\<open>sqlite3\<close> the descriptor holds only the file
  name, made of the directory and the database name; two such configurations with the
  same name give the same file.  For every other client, database name, host, port,
  user and password are those of the configuration.
\<close>

theorem makeKnexConfig_resolves:
  "(DatabaseConfig.client c = ''sqlite3'' \<longrightarrow>
      makeKnexConfig dir c =
        \<lparr>KnexDatabaseConfig.client = ''sqlite3'',
         KnexDatabaseConfig.connection =
           \<lparr>host = None, port = None, user = None, database = None,
            filename = Some (dir @ ''/db-'' @ DatabaseConfig.name c @ ''.sqlite''),
            password = None\<rparr>,
         KnexDatabaseConfig.useNullAsDefault = Some True,
         KnexDatabaseConfig.asyncStackTraces = DatabaseConfig.asyncStackTraces c\<rparr>)
   \<and> (DatabaseConfig.client c \<noteq> ''sqlite3'' \<longrightarrow>
        makeKnexConfig dir c =
          \<lparr>KnexDatabaseConfig.client = DatabaseConfig.client c,
           KnexDatabaseConfig.connection =
             \<lparr>host = DatabaseConfig.host c, port = DatabaseConfig.port c,
              user = DatabaseConfig.user c, database = Some (DatabaseConfig.name c),
              filename = None, password = DatabaseConfig.password c\<rparr>,
           KnexDatabaseConfig.useNullAsDefault = Some False,
           KnexDatabaseConfig.asyncStackTraces = DatabaseConfig.asyncStackTraces c\<rparr>)
   \<and> (c = c' \<longrightarrow> makeKnexConfig dir c = makeKnexConfig dir c')
   \<and> (DatabaseConfig.client c = ''sqlite3'' \<and> DatabaseConfig.client c' = ''sqlite3''
        \<and> DatabaseConfig.name c = DatabaseConfig.name c' \<longrightarrow>
        filename (KnexDatabaseConfig.connection (makeKnexConfig dir c))
          = filename (KnexDatabaseConfig.connection (makeKnexConfig dir c')))"
  by (simp add: makeKnexConfig_def sqliteFilePath_def empty_connection_def)

text \<open>The theorem at a PostgreSQL and at a SQLite configuration.\<close>

theorem makeKnexConfig_resolves_witness:
  "makeKnexConfig ''/srv/joplin'' sqlite_config =
     \<lparr>KnexDatabaseConfig.client = ''sqlite3'',
      KnexDatabaseConfig.connection =
        \<lparr>host = None, port = None, user = None, database = None,
         filename = Some ''/srv/joplin/db-dev.sqlite'', password = None\<rparr>,
      KnexDatabaseConfig.useNullAsDefault = Some True, KnexDatabaseConfig.asyncStackTraces = Some True\<rparr>
   \<and> makeKnexConfig ''/srv/joplin'' pg_config =
       \<lparr>KnexDatabaseConfig.client = ''pg'',
        KnexDatabaseConfig.connection =
          \<lparr>host = Some ''db.local'', port = Some 5432, user = Some ''joplin'',
           database = Some ''joplin'', filename = None, password = Some ''secret''\<rparr>,
        KnexDatabaseConfig.useNullAsDefault = Some False, KnexDatabaseConfig.asyncStackTraces = None\<rparr>"
  using makeKnexConfig_resolves [of sqlite_config "''/srv/joplin''" sqlite_config]
        makeKnexConfig_resolves [of pg_config "''/srv/joplin''" pg_config]
  by (simp add: sqlite_config_def pg_config_def)

section \<open>Properties of the schema reset\<close>

lemma allTableNames_eq:
  "allTableNames =
     [''users'', ''sessions'', ''permissions'', ''files'', ''changes'', ''api_clients'',
      ''notifications'', ''shares'', ''share_users'', ''joplin_file_contents'',
      ''knex_migrations'', ''knex_migrations_lock'']"
  by (simp add: allTableNames_def databaseSchema_def)

lemma dropTables_loop_append:
  "dropTables_loop K db (pre @ post) =
     (case dropTables_loop K db pre of
        (db1, None) \<Rightarrow> dropTables_loop K db1 post
      | (db1, Some e) \<Rightarrow> (db1, Some e))"
proof (induction pre arbitrary: db)
  case Nil
  show ?case by simp
next
  case (Cons t pre)
  show ?case
  proof (cases "schema_dropTable K db t")
    case (Inr db')
    then show ?thesis using Cons.IH [of db'] by simp
  next
    case (Inl e)
    then show ?thesis using Cons.IH [of db]
      by (cases "isNoSuchTableError e") auto
  qed
qed

lemma truncateTables_loop_append:
  "truncateTables_loop K db (pre @ post) =
     (case truncateTables_loop K db pre of
        (db1, None) \<Rightarrow> truncateTables_loop K db1 post
      | (db1, Some e) \<Rightarrow> (db1, Some e))"
proof (induction pre arbitrary: db)
  case Nil
  show ?case by simp
next
  case (Cons t pre)
  show ?case
  proof (cases "table_truncate K db t")
    case (Inr db')
    then show ?thesis using Cons.IH [of db'] by simp
  next
    case (Inl e)
    then show ?thesis using Cons.IH [of db]
      by (cases "isNoSuchTableError e") auto
  qed
qed

text \<open>
  C6.  Let the loop of \<^verbatim>\<open>dropTables\<close> (of \<^verbatim>\<open>truncateTables\<close>) have reached the table
  \<open>tableName\<close> of the catalogue without raising.  If the statement on that table raises
  a value classified as a missing table, the loop goes on with the tables after it, on
  the same database.  If it raises a value classified otherwise, the function raises
  that value there and then: the database is the one the statement failed on.
\<close>

theorem reset_loops_swallow_or_rethrow:
  assumes "allTableNames = pre @ tableName # post"
    and "dropTables_loop K db pre = (db1, None)"
    and "truncateTables_loop K db pre = (db2, None)"
  shows "(schema_dropTable K db1 tableName = Inl e \<and> isNoSuchTableError e = Inr True
            \<longrightarrow> dropTables K db = dropTables_loop K db1 post)
       \<and> (schema_dropTable K db1 tableName = Inl e \<and> isNoSuchTableError e = Inr False
            \<longrightarrow> dropTables K db = (db1, Some e))
       \<and> (table_truncate K db2 tableName = Inl e' \<and> isNoSuchTableError e' = Inr True
            \<longrightarrow> truncateTables K db = truncateTables_loop K db2 post)
       \<and> (table_truncate K db2 tableName = Inl e' \<and> isNoSuchTableError e' = Inr False
            \<longrightarrow> truncateTables K db = (db2, Some e'))"
proof -
  have d: "dropTables K db = dropTables_loop K db1 (tableName # post)"
    unfolding dropTables_def assms(1) by (simp add: dropTables_loop_append assms(2))
  have t: "truncateTables K db = truncateTables_loop K db2 (tableName # post)"
    unfolding truncateTables_def assms(1) by (simp add: truncateTables_loop_append assms(3))
  show ?thesis by (simp add: d t)
qed

text \<open>
  The theorem on a database that only has the table \<^verbatim>\<open>users\<close>, at the second table
  of the catalogue, \<^verbatim>\<open>sessions\<close>.  PostgreSQL's error is classified as a missing table
  and both loops go on to the end; SQLite's error for \<^verbatim>\<open>sessions\<close> is not, and both
  functions raise it.
\<close>

theorem reset_loops_swallow_or_rethrow_witness:
  "dropTables engine (db_users_only Postgres) = (db_fresh Postgres, None)
   \<and> truncateTables engine (db_users_only Postgres)
       = (\<lparr>backend_of = Postgres, tables = [(''users'', [])]\<rparr>, None)
   \<and> dropTables engine (db_users_only Sqlite3)
       = (db_fresh Sqlite3, Some (no_such_table Sqlite3 ''sessions''))
   \<and> truncateTables engine (db_users_only Sqlite3)
       = (\<lparr>backend_of = Sqlite3, tables = [(''users'', [])]\<rparr>,
          Some (no_such_table Sqlite3 ''sessions''))"
  using reset_loops_swallow_or_rethrow
          [of "[''users'']" "''sessions''"
              "[''permissions'', ''files'', ''changes'', ''api_clients'', ''notifications'',
                ''shares'', ''share_users'', ''joplin_file_contents'', ''knex_migrations'',
                ''knex_migrations_lock'']"
              engine "db_users_only Postgres" "db_fresh Postgres"
              "\<lparr>backend_of = Postgres, tables = [(''users'', [])]\<rparr>"
              "no_such_table Postgres ''sessions''" "no_such_table Postgres ''sessions''"]
        reset_loops_swallow_or_rethrow
          [of "[''users'']" "''sessions''"
              "[''permissions'', ''files'', ''changes'', ''api_clients'', ''notifications'',
                ''shares'', ''share_users'', ''joplin_file_contents'', ''knex_migrations'',
                ''knex_migrations_lock'']"
              engine "db_users_only Sqlite3" "db_fresh Sqlite3"
              "\<lparr>backend_of = Sqlite3, tables = [(''users'', [])]\<rparr>"
              "no_such_table Sqlite3 ''sessions''" "no_such_table Sqlite3 ''sessions''"]
  by (simp add: allTableNames_eq engine_def db_users_only_def db_fresh_def
      no_such_table_def isNoSuchTableError_Obj)

lemma no_such_table_postgres: "isNoSuchTableError (no_such_table Postgres t) = Inr True"
  by (simp add: no_such_table_def isNoSuchTableError_Obj)

text \<open>
  On PostgreSQL a missing table never makes the two functions raise, so that each can be
  called twice in a row.
\<close>

lemma postgres_dropTables_loop:
  "backend_of db = Postgres \<Longrightarrow>
   snd (dropTables_loop engine db ts) = None
   \<and> backend_of (fst (dropTables_loop engine db ts)) = Postgres"
proof (induction ts arbitrary: db)
  case Nil
  then show ?case by simp
next
  case (Cons t ts)
  show ?case
  proof (cases "map_of (tables db) t")
    case None
    then have "schema_dropTable engine db t = Inl (no_such_table Postgres t)"
      using Cons.prems by (simp add: engine_def)
    then show ?thesis using Cons.IH [OF Cons.prems] by (simp add: no_such_table_postgres)
  next
    case (Some rows)
    let ?db' = "db\<lparr>tables := filter (\<lambda>(n, rs). n \<noteq> t) (tables db)\<rparr>"
    have "schema_dropTable engine db t = Inr ?db'"
      using Some by (simp add: engine_def)
    then show ?thesis
      using Cons.IH [of ?db'] Cons.prems by simp
  qed
qed

lemma postgres_truncateTables_loop:
  "backend_of db = Postgres \<Longrightarrow>
   snd (truncateTables_loop engine db ts) = None
   \<and> backend_of (fst (truncateTables_loop engine db ts)) = Postgres"
proof (induction ts arbitrary: db)
  case Nil
  then show ?case by simp
next
  case (Cons t ts)
  show ?case
  proof (cases "map_of (tables db) t")
    case None
    then have "table_truncate engine db t = Inl (no_such_table Postgres t)"
      using Cons.prems by (simp add: engine_def)
    then show ?thesis using Cons.IH [OF Cons.prems] by (simp add: no_such_table_postgres)
  next
    case (Some rows)
    let ?db' = "db\<lparr>tables := map (\<lambda>(n, rs). if n = t then (n, []) else (n, rs)) (tables db)\<rparr>"
    have "table_truncate engine db t = Inr ?db'"
      using Some by (simp add: engine_def)
    then show ?thesis
      using Cons.IH [of ?db'] Cons.prems by simp
  qed
qed

lemma postgres_reset_twice:
  assumes "backend_of db = Postgres"
  shows "snd (dropTables engine db) = None"
    and "snd (dropTables engine (fst (dropTables engine db))) = None"
    and "snd (truncateTables engine db) = None"
    and "snd (truncateTables engine (fst (truncateTables engine db))) = None"
  using postgres_dropTables_loop [OF assms, of allTableNames]
        postgres_dropTables_loop [of "fst (dropTables engine db)" allTableNames]
        postgres_truncateTables_loop [OF assms, of allTableNames]
        postgres_truncateTables_loop [of "fst (truncateTables engine db)" allTableNames]
  by (simp_all add: dropTables_def truncateTables_def)

text \<open>
  C4 does not hold of the code on SQLite.  On a database with every table of the
  catalogue the first \<^verbatim>\<open>dropTables\<close> drops them all; the second meets the missing
  table \<^verbatim>\<open>users\<close>, whose error the classifier does not recognise (it looks for the
  name \<^verbatim>\<open>knex_migrations\<close> in the message), and raises.  \<^verbatim>\<open>truncateTables\<close> on a
  database that only has the table \<^verbatim>\<open>users\<close> raises at the first call already.
\<close>

theorem reset_twice_on_sqlite:
  "dropTables engine (db_full Sqlite3) = (db_fresh Sqlite3, None)
   \<and> dropTables engine (db_fresh Sqlite3)
       = (db_fresh Sqlite3,
          Some (Obj (JsString ''SQLITE_ERROR'') (JsString ''SQLITE_ERROR: no such table: users'')))
   \<and> truncateTables engine (db_users_only Sqlite3)
       = (\<lparr>backend_of = Sqlite3, tables = [(''users'', [])]\<rparr>,
          Some (Obj (JsString ''SQLITE_ERROR'')
                  (JsString ''SQLITE_ERROR: no such table: sessions'')))"
  by (simp add: dropTables_def truncateTables_def allTableNames_eq engine_def db_full_def
      db_fresh_def db_users_only_def no_such_table_def isNoSuchTableError_Obj)

section \<open>Properties of the retry loop\<close>

declare waitLoop.simps [simp del]

lemma try_attempt_eq:
  "try_attempt W K dir cfg i live
     = (attempt_result W K dir cfg i, opened_by W dir cfg i @ live)"
  by (cases "knex_open W (makeKnexConfig dir cfg) i")
     (simp_all add: try_attempt_def attempt_result_def opened_by_def connectDb_def Let_def)

lemma opened_by_at_most_one: "length (opened_by W dir cfg i) \<le> 1"
  by (cases "knex_open W (makeKnexConfig dir cfg) i") (simp_all add: opened_by_def connectDb_def)

lemma waitLoop_returns:
  "attempt_result W K dir cfg i = Inr check \<Longrightarrow>
   waitLoop W K dir cfg start lastError i now live
     = (Returned check, now + int (attempt_ms W i), opened_by W dir cfg i @ live)"
  by (subst waitLoop.simps) (simp add: try_attempt_eq)

lemma waitLoop_log_raises:
  "attempt_result W K dir cfg i = Inl err \<Longrightarrow> get_message err = Inl te \<Longrightarrow>
   waitLoop W K dir cfg start lastError i now live
     = (Thrown te, now + int (attempt_ms W i), opened_by W dir cfg i @ live)"
  by (subst waitLoop.simps) (simp add: try_attempt_eq)

lemma waitLoop_times_out:
  "attempt_result W K dir cfg i = Inl err \<Longrightarrow> get_message err = Inr m \<Longrightarrow>
   now + int (attempt_ms W i) - start > timeout \<Longrightarrow>
   waitLoop W K dir cfg start lastError i now live
     = (Thrown (new_Error (''Timeout trying to connect to database. Last error was: ''
                             @ to_string m)),
        now + int (attempt_ms W i), opened_by W dir cfg i @ live)"
  by (subst waitLoop.simps) (simp add: try_attempt_eq)

lemma waitLoop_retries:
  "attempt_result W K dir cfg i = Inl err \<Longrightarrow> get_message err = Inr m \<Longrightarrow>
   \<not> now + int (attempt_ms W i) - start > timeout \<Longrightarrow>
   waitLoop W K dir cfg start lastError i now live
     = waitLoop W K dir cfg start err (Suc i)
         (now + int (attempt_ms W i) + 1000 + int (sleep_lag W i))
         (opened_by W dir cfg i @ live)"
  by (subst waitLoop.simps) (simp add: try_attempt_eq)


lemma clock_shift:
  fixes f g :: "nat \<Rightarrow> int"
  assumes "i < j"
  shows "now + (\<Sum>l = i..j. f l) + (\<Sum>l = i..<j. g l)
           = now + f i + g i + (\<Sum>l = Suc i..j. f l) + (\<Sum>l = Suc i..<j. g l)"
  using assms by (simp add: sum.atLeast_Suc_atMost sum.atLeast_Suc_lessThan)

lemma waitLoop_run:
  assumes "waitLoop W K dir cfg start lastError i now live = (out, t, live')"
  shows "\<exists>k\<ge>i.
      (\<forall>j. i \<le> j \<and> j < k \<longrightarrow>
          now + (\<Sum>l = i..j. int (attempt_ms W l)) + (\<Sum>l = i..<j. 1000 + int (sleep_lag W l))
            - start \<le> timeout
          \<and> (\<exists>err m. attempt_result W K dir cfg j = Inl err \<and> get_message err = Inr m))
    \<and> live' = concat (map (opened_by W dir cfg) (rev [i..<Suc k])) @ live
    \<and> t = now + (\<Sum>l = i..k. int (attempt_ms W l)) + (\<Sum>l = i..<k. 1000 + int (sleep_lag W l))
    \<and> (case out of
          Returned check \<Rightarrow> attempt_result W K dir cfg k = Inr check
        | Thrown e \<Rightarrow>
            (\<exists>err. attempt_result W K dir cfg k = Inl err \<and>
               (case get_message err of
                  Inl te \<Rightarrow> e = te
                | Inr m \<Rightarrow>
                    timeout < t - start
                    \<and> e = new_Error (''Timeout trying to connect to database. Last error was: ''
                                       @ to_string m))))"
  using assms
proof (induction W K dir cfg start lastError i now live rule: waitLoop.induct)
  case (1 W K dir cfg start lastError i now live)
  let ?now1 = "now + int (attempt_ms W i)"
  let ?now2 = "?now1 + (1000 + int (sleep_lag W i))"
  let ?live1 = "opened_by W dir cfg i @ live"
  let ?failed = "\<lambda>j. \<exists>err m. attempt_result W K dir cfg j = Inl err \<and> get_message err = Inr m"
  let ?clock = "\<lambda>n i j. n + (\<Sum>l = i..j. int (attempt_ms W l))
                           + (\<Sum>l = i..<j. 1000 + int (sleep_lag W l))"
  show ?case
  proof (cases "attempt_result W K dir cfg i")
    case (Inr check)
    from waitLoop_returns [OF Inr] "1.prems"
    have "out = Returned check" "t = ?now1" "live' = ?live1" by simp_all
    with Inr show ?thesis by (intro exI [of _ i]) auto
  next
    case (Inl err)
    show ?thesis
    proof (cases "get_message err")
      case te: (Inl te)
      from waitLoop_log_raises [OF Inl te] "1.prems"
      have "out = Thrown te" "t = ?now1" "live' = ?live1" by simp_all
      with Inl te show ?thesis by (intro exI [of _ i]) auto
    next
      case m: (Inr m)
      show ?thesis
      proof (cases "?now1 - start > timeout")
        case True
        from waitLoop_times_out [OF Inl m True] "1.prems"
        have "out = Thrown (new_Error (''Timeout trying to connect to database. Last error was: ''
                                         @ to_string m))"
          "t = ?now1" "live' = ?live1" by simp_all
        with Inl m True show ?thesis by (intro exI [of _ i]) auto
      next
        case False
        have tried: "fst (try_attempt W K dir cfg i live) = Inl err"
          and lv: "snd (try_attempt W K dir cfg i live) = ?live1"
          by (simp_all add: try_attempt_eq Inl)
        have next_run: "waitLoop W K dir cfg start err (Suc i)
                          (?now1 + 1000 + int (sleep_lag W i)) ?live1 = (out, t, live')"
          using waitLoop_retries [OF Inl m False] "1.prems" by simp
        from "1.IH" [OF refl refl refl tried m refl False] next_run lv
        obtain k where k: "Suc i \<le> k"
          and failed: "\<forall>j. Suc i \<le> j \<and> j < k \<longrightarrow>
                          ?clock ?now2 (Suc i) j - start \<le> timeout \<and> ?failed j"
          and lives: "live' = concat (map (opened_by W dir cfg) (rev [Suc i..<Suc k])) @ ?live1"
          and time: "t = ?clock ?now2 (Suc i) k"
          and ending: "(case out of
              Returned check \<Rightarrow> attempt_result W K dir cfg k = Inr check
            | Thrown e \<Rightarrow>
                (\<exists>err. attempt_result W K dir cfg k = Inl err \<and>
                   (case get_message err of
                      Inl te \<Rightarrow> e = te
                    | Inr m \<Rightarrow>
                        timeout < t - start
                        \<and> e = new_Error (''Timeout trying to connect to database. Last error was: ''
                                           @ to_string m))))"
          by (auto simp: add.assoc)
        have shift: "?clock now i j = ?clock ?now2 (Suc i) j" if "i < j" for j
          using clock_shift [OF that, of now "\<lambda>l. int (attempt_ms W l)"
                               "\<lambda>l. 1000 + int (sleep_lag W l)"]
          by simp
        have "i \<le> k" using k by simp
        moreover have "\<forall>j. i \<le> j \<and> j < k \<longrightarrow> ?clock now i j - start \<le> timeout \<and> ?failed j"
        proof (intro allI impI)
          fix j assume j: "i \<le> j \<and> j < k"
          show "?clock now i j - start \<le> timeout \<and> ?failed j"
          proof (cases "j = i")
            case True
            with Inl m False show ?thesis by auto
          next
            case neq: False
            with j have lt: "i < j" and rng: "Suc i \<le> j \<and> j < k" by simp_all
            from failed rng have a: "?clock ?now2 (Suc i) j - start \<le> timeout"
              and b: "?failed j" by blast+
            from a have "?clock now i j - start \<le> timeout"
              unfolding shift [OF lt] .
            with b show ?thesis by blast
          qed
        qed
        moreover have "live' = concat (map (opened_by W dir cfg) (rev [i..<Suc k])) @ live"
        proof -
          have "[i..<Suc k] = i # [Suc i..<Suc k]"
            using k by (simp add: upt_conv_Cons)
          then show ?thesis using lives by simp
        qed
        moreover have "t = ?clock now i k"
          using time shift [of k] k by simp
        ultimately show ?thesis using ending by blast
      qed
    qed
  qed
qed

text \<open>
  The three examples, run.
\<close>

lemma refused_message:
  "get_message refused = Inr (JsString ''connect ECONNREFUSED 127.0.0.1:5432'')"
  by (simp add: refused_def)

lemma probe_unreachable:
  "connectionCheck lazy_engine (n, None) =
     \<lparr>isCreated = False, error = refused, latestMigrationRow = RowNull, connection = None\<rparr>"
  by (simp add: connectionCheck_def latestMigration_def lazy_engine_def on_server_def refused_def
      isNoSuchTableError_Obj)

lemma probe_migrated:
  "connectionCheck lazy_engine (n, Some db_migrated) =
     \<lparr>isCreated = True, error = Prim JsNull, latestMigrationRow = Row ''0001_init'',
      connection = Some (n, Some db_migrated)\<rparr>"
  by (simp add: connectionCheck_def latestMigration_def lazy_engine_def on_server_def
      engine_def db_migrated_def select_name_first_def orderBy_id_asc_def)

lemma never_up_attempt:
  "attempt_result world_never_up lazy_engine dir cfg i = Inl refused"
  by (simp add: attempt_result_def try_attempt_def connectDb_def world_never_up_def
      probe_unreachable refused_def)

lemma never_up_opened: "opened_by world_never_up dir cfg i = [(i, None)]"
  by (simp add: opened_by_def connectDb_def world_never_up_def)

lemma up_at_second_attempt:
  "attempt_result world_up_at_second lazy_engine dir cfg 0 = Inl refused"
  "attempt_result world_up_at_second lazy_engine dir cfg (Suc n) =
     Inr \<lparr>isCreated = True, error = Prim JsNull, latestMigrationRow = Row ''0001_init'',
          connection = Some (Suc n, Some db_migrated)\<rparr>"
  by (simp_all add: attempt_result_def try_attempt_def connectDb_def world_up_at_second_def
      probe_unreachable probe_migrated refused_def)

lemma up_at_second_opened:
  "opened_by world_up_at_second dir cfg 0 = [(0, None)]"
  "opened_by world_up_at_second dir cfg (Suc n) = [(Suc n, Some db_migrated)]"
  by (simp_all add: opened_by_def connectDb_def world_up_at_second_def)

lemma slow_refusal_attempt:
  "attempt_result world_slow_refusal lazy_engine dir cfg 0 = Inl refused"
  "attempt_result world_slow_refusal lazy_engine dir cfg (Suc n) =
     Inr \<lparr>isCreated = True, error = Prim JsNull, latestMigrationRow = Row ''0001_init'',
          connection = Some (Suc n, Some db_migrated)\<rparr>"
  by (simp_all add: attempt_result_def try_attempt_def connectDb_def world_slow_refusal_def
      probe_unreachable probe_migrated refused_def)

lemma slow_refusal_opened:
  "opened_by world_slow_refusal dir cfg 0 = [(0, None)]"
  "opened_by world_slow_refusal dir cfg (Suc n) = [(Suc n, Some db_migrated)]"
  by (simp_all add: opened_by_def connectDb_def world_slow_refusal_def)

lemma never_up_timing:
  "attempt_ms world_never_up i = 10000" "sleep_lag world_never_up i = 0"
  by (simp_all add: world_never_up_def)

lemma up_at_second_timing:
  "attempt_ms world_up_at_second i = 50" "sleep_lag world_up_at_second i = 0"
  by (simp_all add: world_up_at_second_def)

lemma slow_refusal_timing:
  "attempt_ms world_slow_refusal 0 = 29500" "attempt_ms world_slow_refusal (Suc n) = 20"
  "sleep_lag world_slow_refusal i = 0"
  by (simp_all add: world_slow_refusal_def)

lemma run_never_up:
  "waitForConnection world_never_up lazy_engine ''/srv'' pg_config 0 [] =
     (Thrown (new_Error
        (''Timeout trying to connect to database. Last error was: ''
           @ ''connect ECONNREFUSED 127.0.0.1:5432'')),
      32000, [(2, None), (1, None), (0, None)])"
  by (simp add: waitForConnection_def
      waitLoop_retries [OF never_up_attempt refused_message]
      waitLoop_times_out [OF never_up_attempt refused_message]
      never_up_opened never_up_timing timeout_def)

lemma run_up_at_second:
  "waitForConnection world_up_at_second lazy_engine ''/srv'' pg_config 0 [] =
     (Returned \<lparr>isCreated = True, error = Prim JsNull, latestMigrationRow = Row ''0001_init'',
                connection = Some (1, Some db_migrated)\<rparr>,
      1100, [(1, Some db_migrated), (0, None)])"
  by (simp add: waitForConnection_def
      waitLoop_retries [OF up_at_second_attempt(1) refused_message]
      waitLoop_returns [OF up_at_second_attempt(2)]
      up_at_second_opened up_at_second_timing timeout_def)

lemma run_slow_refusal:
  "waitForConnection world_slow_refusal lazy_engine ''/srv'' pg_config 0 [] =
     (Returned \<lparr>isCreated = True, error = Prim JsNull, latestMigrationRow = Row ''0001_init'',
                connection = Some (1, Some db_migrated)\<rparr>,
      30520, [(1, Some db_migrated), (0, None)])"
  by (simp add: waitForConnection_def
      waitLoop_retries [OF slow_refusal_attempt(1) refused_message]
      waitLoop_returns [OF slow_refusal_attempt(2)]
      slow_refusal_opened slow_refusal_timing timeout_def)

lemma null_thrown_attempt:
  "attempt_result world_null_thrown lazy_engine dir cfg i = Inl (Prim JsNull)"
  by (simp add: attempt_result_def try_attempt_def connectDb_def world_null_thrown_def)

lemma null_thrown_opened: "opened_by world_null_thrown dir cfg i = []"
  by (simp add: opened_by_def connectDb_def world_null_thrown_def)

lemma null_thrown_timing: "attempt_ms world_null_thrown i = 5"
  by (simp add: world_null_thrown_def)

lemma run_null_thrown:
  "waitForConnection world_null_thrown lazy_engine ''/srv'' pg_config 0 [] =
     (Thrown (TypeError ''Cannot read properties of null (reading message)''), 5, [])"
  by (simp add: waitForConnection_def null_thrown_opened null_thrown_timing
      waitLoop_log_raises [OF null_thrown_attempt])

text \<open>Reading the message raises on \<^verbatim>\<open>null\<close> and \<^verbatim>\<open>undefined\<close> only.\<close>

lemma get_message_raises:
  "get_message v = Inl te \<Longrightarrow> v = Prim JsNull \<or> v = Prim JsUndefined"
  by (cases v rule: get_message.cases) simp_all

text \<open>
  Each pause lasts a second at least, so the clock read after attempt \<open>k\<close> is at least
  \<open>k\<close> seconds past the call, and no more than 32 attempts are made.
\<close>

lemma elapsed_after_lower: "1000 * int k \<le> elapsed_after W k"
proof -
  have "(\<Sum>j = 0..<k. (1000::int)) \<le> (\<Sum>j = 0..<k. 1000 + int (sleep_lag W j))"
    by (rule sum_mono) simp
  moreover have "0 \<le> (\<Sum>j = 0..k. int (attempt_ms W j))"
    by (rule sum_nonneg) simp
  ultimately show ?thesis by (simp add: elapsed_after_def)
qed

lemma attempts_bounded:
  assumes "\<forall>j<k. elapsed_after W j \<le> timeout"
  shows "k \<le> 31"
proof (rule ccontr)
  assume "\<not> k \<le> 31"
  then have "31 < k" by simp
  with assms have "elapsed_after W 31 \<le> timeout" by blast
  with elapsed_after_lower [of 31 W] show False by (simp add: timeout_def)
qed

text \<open>
  C1, as the code has it.  Let \<^verbatim>\<open>waitForConnection\<close> end; it does, in a world where
  every attempt takes finite time and the clock does not run backwards.  It ends at some
  attempt \<open>k\<close> (counted from 0, and no later than attempt 31).  Every attempt before
  \<open>k\<close> failed with a value whose message could be read, and the time elapsed since the
  call, read after it, did not exceed the timeout of 30000 milliseconds; each was
  followed by a pause of 1000 milliseconds.  There are three endings.  If the function
  returns, it returns the check of attempt \<open>k\<close>, which succeeded, whatever time has
  elapsed.  If it raises, attempt \<open>k\<close> failed, and either the time elapsed after it
  exceeds the timeout and the value raised is an error whose message is
  \<^verbatim>\<open>Timeout trying to connect to database. Last error was: \<close> followed by the message
  of that failure; or that failure is \<^verbatim>\<open>null\<close> or \<^verbatim>\<open>undefined\<close>, and the value
  raised is the \<^verbatim>\<open>TypeError\<close> of the \<^verbatim>\<open>catch\<close> clause reading its message for the
  log line, whatever time has elapsed.
\<close>

theorem waitForConnection_ends:
  assumes "waitForConnection W K dir cfg now live = (out, t, live')"
  shows "\<exists>k. k \<le> 31 \<and> t = now + elapsed_after W k
      \<and> (\<forall>j<k. elapsed_after W j \<le> timeout
             \<and> (\<exists>err m. attempt_result W K dir cfg j = Inl err \<and> get_message err = Inr m))
      \<and> (case out of
            Returned check \<Rightarrow> attempt_result W K dir cfg k = Inr check
          | Thrown e \<Rightarrow>
              (\<exists>err. attempt_result W K dir cfg k = Inl err \<and>
                 (case get_message err of
                    Inl te \<Rightarrow> (err = Prim JsNull \<or> err = Prim JsUndefined) \<and> e = te
                  | Inr m \<Rightarrow>
                      timeout < elapsed_after W k
                      \<and> e = new_Error (''Timeout trying to connect to database. Last error was: ''
                                         @ to_string m))))"
proof -
  from waitLoop_run [OF assms [unfolded waitForConnection_def]]
  obtain k where
    before: "\<forall>j. 0 \<le> j \<and> j < k \<longrightarrow>
        now + (\<Sum>l = 0..j. int (attempt_ms W l)) + (\<Sum>l = 0..<j. 1000 + int (sleep_lag W l))
          - now \<le> timeout
        \<and> (\<exists>err m. attempt_result W K dir cfg j = Inl err \<and> get_message err = Inr m)"
    and time: "t = now + (\<Sum>l = 0..k. int (attempt_ms W l))
                       + (\<Sum>l = 0..<k. 1000 + int (sleep_lag W l))"
    and ending: "(case out of
          Returned check \<Rightarrow> attempt_result W K dir cfg k = Inr check
        | Thrown e \<Rightarrow>
            (\<exists>err. attempt_result W K dir cfg k = Inl err \<and>
               (case get_message err of
                  Inl te \<Rightarrow> e = te
                | Inr m \<Rightarrow>
                    timeout < t - now
                    \<and> e = new_Error (''Timeout trying to connect to database. Last error was: ''
                                       @ to_string m))))"
    by blast
  have t: "t = now + elapsed_after W k" "t - now = elapsed_after W k"
    using time by (simp_all add: elapsed_after_def)
  have earlier: "\<forall>j<k. elapsed_after W j \<le> timeout
           \<and> (\<exists>err m. attempt_result W K dir cfg j = Inl err \<and> get_message err = Inr m)"
    using before by (simp add: elapsed_after_def)
  then have "k \<le> 31" using attempts_bounded [of k W] by blast
  moreover note earlier
  moreover have "(case out of
            Returned check \<Rightarrow> attempt_result W K dir cfg k = Inr check
          | Thrown e \<Rightarrow>
              (\<exists>err. attempt_result W K dir cfg k = Inl err \<and>
                 (case get_message err of
                    Inl te \<Rightarrow> (err = Prim JsNull \<or> err = Prim JsUndefined) \<and> e = te
                  | Inr m \<Rightarrow>
                      timeout < elapsed_after W k
                      \<and> e = new_Error (''Timeout trying to connect to database. Last error was: ''
                                         @ to_string m))))"
  proof (cases out)
    case (Returned check)
    with ending show ?thesis by simp
  next
    case (Thrown e)
    with ending obtain err where err: "attempt_result W K dir cfg k = Inl err"
      and how: "(case get_message err of
                   Inl te \<Rightarrow> e = te
                 | Inr m \<Rightarrow>
                     timeout < t - now
                     \<and> e = new_Error (''Timeout trying to connect to database. Last error was: ''
                                        @ to_string m))"
      by auto
    show ?thesis
    proof (cases "get_message err")
      case (Inl te)
      with how get_message_raises [OF Inl] err Thrown show ?thesis by auto
    next
      case (Inr m)
      with how err Thrown t(2) show ?thesis by auto
    qed
  qed
  ultimately show ?thesis using t(1) by blast
qed

text \<open>
  The theorem in a world where the server never comes up (the third attempt is refused
  32 seconds after the call), in a world where it is up at the second attempt, and in
  the world where creating the handle raises \<^verbatim>\<open>null\<close>.
\<close>

theorem waitForConnection_ends_witness:
  "waitForConnection world_never_up lazy_engine ''/srv'' pg_config 0 [] =
     (Thrown (new_Error
        (''Timeout trying to connect to database. Last error was: ''
           @ ''connect ECONNREFUSED 127.0.0.1:5432'')),
      32000, [(2, None), (1, None), (0, None)])
   \<and> waitForConnection world_up_at_second lazy_engine ''/srv'' pg_config 0 [] =
       (Returned \<lparr>isCreated = True, error = Prim JsNull, latestMigrationRow = Row ''0001_init'',
                  connection = Some (1, Some db_migrated)\<rparr>,
        1100, [(1, Some db_migrated), (0, None)])
   \<and> waitForConnection world_null_thrown lazy_engine ''/srv'' pg_config 0 [] =
       (Thrown (TypeError ''Cannot read properties of null (reading message)''), 5, [])"
  using waitForConnection_ends [OF run_never_up] waitForConnection_ends [OF run_up_at_second]
    waitForConnection_ends [OF run_null_thrown]
    run_never_up run_up_at_second run_null_thrown
  by simp

text \<open>
  C1 as stated fails, twice.  The function can return normally after the deadline: the
  first attempt is refused 29.5 seconds after the call, before the deadline; the loop
  pauses for a second and the second attempt succeeds, 30.52 seconds after the call.
  And it can raise before the deadline: when creating the handle raises \<^verbatim>\<open>null\<close>, the
  \<^verbatim>\<open>catch\<close> clause reads \<^verbatim>\<open>error.message\<close> for its log line and raises a
  \<^verbatim>\<open>TypeError\<close>, 5 milliseconds after the call.
\<close>

theorem waitForConnection_late_return_and_early_raise:
  "waitForConnection world_slow_refusal lazy_engine ''/srv'' pg_config 0 [] =
     (Returned \<lparr>isCreated = True, error = Prim JsNull, latestMigrationRow = Row ''0001_init'',
                connection = Some (1, Some db_migrated)\<rparr>,
      30520, [(1, Some db_migrated), (0, None)])
   \<and> timeout < 30520 - 0
   \<and> waitForConnection world_null_thrown lazy_engine ''/srv'' pg_config 0 [] =
       (Thrown (TypeError ''Cannot read properties of null (reading message)''), 5, [])
   \<and> 5 - 0 < timeout"
  using run_slow_refusal run_null_thrown by (simp add: timeout_def)

text \<open>
  C5, as the code has it.  \<^verbatim>\<open>waitForConnection\<close> releases nothing: when it ends, at
  attempt \<open>k\<close>, the connections open are those that were open at the call and every
  connection opened by the attempts up to \<open>k\<close>, those of the failed attempts before
  \<open>k\<close> among them.  Each attempt opens at most one connection.
\<close>

theorem waitForConnection_releases_nothing:
  assumes "waitForConnection W K dir cfg now live = (out, t, live')"
  shows "\<exists>k. live' = concat (map (opened_by W dir cfg) (rev [0..<Suc k])) @ live
      \<and> (\<forall>j<k. \<exists>err. attempt_result W K dir cfg j = Inl err)
      \<and> (\<forall>j. length (opened_by W dir cfg j) \<le> 1)"
proof -
  from waitLoop_run [OF assms [unfolded waitForConnection_def]]
  obtain k where
    before: "\<forall>j. 0 \<le> j \<and> j < k \<longrightarrow>
        now + (\<Sum>l = 0..j. int (attempt_ms W l)) + (\<Sum>l = 0..<j. 1000 + int (sleep_lag W l))
          - now \<le> timeout
        \<and> (\<exists>err m. attempt_result W K dir cfg j = Inl err \<and> get_message err = Inr m)"
    and lives: "live' = concat (map (opened_by W dir cfg) (rev [0..<Suc k])) @ live"
    by blast
  have "\<forall>j<k. \<exists>err. attempt_result W K dir cfg j = Inl err"
    using before by blast
  with lives opened_by_at_most_one show ?thesis by blast
qed


text \<open>
  The theorem in the world where the server never comes up: three attempts, three
  connections left open.
\<close>

theorem waitForConnection_releases_nothing_witness:
  "snd (snd (waitForConnection world_never_up lazy_engine ''/srv'' pg_config 0 []))
     = [(2, None), (1, None), (0, None)]"
  using waitForConnection_releases_nothing [OF run_never_up] run_never_up
  by simp

text \<open>
  C5 as stated fails.  In the world where the server is up at the second attempt, the
  first attempt opens the connection \<open>(0, None)\<close> and its probe reports the refusal.
  The second iteration starts with that connection still open, and it is still open when
  the function returns; \<^verbatim>\<open>disconnectDb\<close> would have taken it away.
\<close>

theorem waitForConnection_keeps_failed_connection:
  "attempt_result world_up_at_second lazy_engine ''/srv'' pg_config 0 = Inl refused
   \<and> opened_by world_up_at_second ''/srv'' pg_config 0 = [(0, None)]
   \<and> waitLoop world_up_at_second lazy_engine ''/srv'' pg_config 0
         (Obj JsUndefined (JsString [])) 0 0 []
       = waitLoop world_up_at_second lazy_engine ''/srv'' pg_config 0 refused (Suc 0) 1050
           [(0, None)]
   \<and> waitForConnection world_up_at_second lazy_engine ''/srv'' pg_config 0 [] =
       (Returned \<lparr>isCreated = True, error = Prim JsNull, latestMigrationRow = Row ''0001_init'',
                  connection = Some (1, Some db_migrated)\<rparr>,
        1100, [(1, Some db_migrated), (0, None)])
   \<and> disconnectDb (0, None) [(1, Some db_migrated), (0, None)] = [(1, Some db_migrated)]"
  using run_up_at_second
  by (simp add: waitLoop_retries [OF up_at_second_attempt(1) refused_message]
      waitLoop_returns [OF up_at_second_attempt(2)]
      up_at_second_attempt up_at_second_opened up_at_second_timing disconnectDb_def
      timeout_def)


end
